theory Spec2Isabelle
  imports Main "HOL-Library.AList" "HOL-Library.Sublist"
begin

section \<open>The instance manager of wordpress-docker-dind\<close>

text \<open>
  A shallow embedding of \<^verbatim>\<open>images/docker-dind-wp/instance-manager.sh\<close> and of the two
  configuration loaders of \<^verbatim>\<open>cli-tool/bin/wp-dind.js\<close>.

  The shell script runs under \<^verbatim>\<open>set -e\<close>: a command that fails ends the script with a
  non-zero status, and the files written so far stay. Every function of the script is
  therefore a function from the state before to an outcome and the state after.

  What stands outside the script is an input of the model:
  \<^item> the output of \<^verbatim>\<open>openssl rand -base64 32\<close> and of the two clocks (record \<open>rnd\<close>);
  \<^item> the environment variables \<^verbatim>\<open>DEFAULT_*\<close> (record \<open>env\<close>);
  \<^item> the answer typed at the prompt of \<^verbatim>\<open>remove\<close>.
  The container engine is taken to be up: \<^verbatim>\<open>docker network inspect\<close> answers from the set
  of networks, \<^verbatim>\<open>docker network create\<close> refuses a subnet whose third octet is above 255,
  \<^verbatim>\<open>docker-compose\<close> needs its \<^verbatim>\<open>docker-compose.yml\<close>, and the MySQL server of an instance
  accepts root with the password of that instance's compose file and no other.

  Instance names are words over letters, digits and \<^verbatim>\<open>_ . -\<close>: the characters that the
  shell reads literally when it sources \<^verbatim>\<open>.instance-info\<close>, that make one path component,
  and that grep reads literally, the dot apart. Ports are integers, as \<^verbatim>\<open>tonumber\<close> of the
  output of \<^verbatim>\<open>get_next_port\<close> writes them.
\<close>

subsection \<open>Constants of the script\<close>

definition NETWORK_PREFIX :: string where
  "NETWORK_PREFIX = ''wp-network''"

definition INSTANCE_PORT_START :: int where
  "INSTANCE_PORT_START = 8001"

record env =
  DEFAULT_MYSQL_VERSION :: string
  DEFAULT_PHP_VERSION :: string
  DEFAULT_WEBSERVER :: string
  DEFAULT_DB_NAME :: string
  DEFAULT_DB_USER :: string

text \<open>The environment when no variable is set (lines 12 to 16).\<close>

definition default_env :: env where
  "default_env = \<lparr>DEFAULT_MYSQL_VERSION = ''80'', DEFAULT_PHP_VERSION = ''83'',
     DEFAULT_WEBSERVER = ''nginx'', DEFAULT_DB_NAME = ''wordpress'',
     DEFAULT_DB_USER = ''wordpress''\<rparr>"

text \<open>The shell's \<^verbatim>\<open>${x:-d}\<close>: the default stands in for an unset or empty word.\<close>

definition or_default :: "string \<Rightarrow> string \<Rightarrow> string" where
  "or_default x d = (if x = [] then d else x)"

subsection \<open>The workspace configuration document\<close>

record stack_entry =
  webserver :: string
  phpVersion :: string
  mysqlVersion :: string

record config_instance =
  port :: "int option"
  stack :: stack_entry
  createdAt :: string
  status :: string

text \<open>
  The document is a JSON object; \<open>instances\<close> is its object of that name, in insertion
  order. \<open>None\<close> for \<open>port\<close> is a missing or null field.
\<close>

record workspace =
  workspaceName :: string
  workspaceType :: string
  instances :: "(string \<times> config_instance) list"

text \<open>\<^verbatim>\<open>jq -r '.instances | to_entries[] | .value.port // empty'\<close>\<close>

definition ports_of :: "workspace \<Rightarrow> int list" where
  "ports_of w = List.map_filter (\<lambda>e. port (snd e)) (instances w)"

text \<open>The loop of \<^verbatim>\<open>get_next_port\<close> over the ports, \<open>max_port\<close> being its variable.\<close>

fun scan_ports :: "int \<Rightarrow> int list \<Rightarrow> int" where
  "scan_ports max_port [] = max_port"
| "scan_ports max_port (p # ps) =
     scan_ports (if p \<ge> max_port then p + 1 else max_port) ps"

text \<open>The argument is the configuration file: \<open>None\<close> when the file does not exist.\<close>

definition get_next_port :: "workspace option \<Rightarrow> int" where
  "get_next_port cfg =
     (case cfg of
        None \<Rightarrow> INSTANCE_PORT_START
      | Some w \<Rightarrow> scan_ports INSTANCE_PORT_START (ports_of w))"

definition save_instance_to_config ::
  "string \<Rightarrow> int \<Rightarrow> string \<Rightarrow> string \<Rightarrow> string \<Rightarrow> string \<Rightarrow> workspace option \<Rightarrow> workspace option" where
  "save_instance_to_config name p ws php mysql now cfg =
     (case cfg of
        None \<Rightarrow> None
      | Some w \<Rightarrow>
          Some (w\<lparr>instances :=
            AList.update name
              \<lparr>port = Some p,
               stack = \<lparr>webserver = ws, phpVersion = php, mysqlVersion = mysql\<rparr>,
               createdAt = now, status = ''created''\<rparr>
              (instances w)\<rparr>))"

definition remove_instance_from_config :: "string \<Rightarrow> workspace option \<Rightarrow> workspace option" where
  "remove_instance_from_config name cfg =
     (case cfg of
        None \<Rightarrow> None
      | Some w \<Rightarrow> Some (w\<lparr>instances := AList.delete name (instances w)\<rparr>))"

subsection \<open>Files of an instance\<close>

record instance_info =
  NAME :: string
  MYSQL_VERSION :: string
  PHP_VERSION :: string
  WEBSERVER :: string
  NETWORK :: string
  PORT :: int
  CREATED :: string
  DB_PASSWORD :: string
  DB_ROOT_PASSWORD :: string

record compose =
  mysql_image :: string
  mysql_container :: string
  MYSQL_ROOT_PASSWORD :: string
  MYSQL_DATABASE :: string
  MYSQL_USER :: string
  MYSQL_PASSWORD :: string
  php_image :: string
  php_container :: string
  web_image :: string
  web_container :: string
  published_port :: int
  private_network :: string

text \<open>
  \<^verbatim>\<open>data/wordpress\<close> is a directory of files or, after a clone by symlink, a link to the
  tree of the instance named.
\<close>

datatype wp_tree = Tree "string list" | Symlink string

text \<open>
  One directory under \<^verbatim>\<open>/wordpress-instances\<close>. \<open>data_mysql\<close> stands for the rows of the
  database \<^verbatim>\<open>wordpress\<close> that the server keeps there.
\<close>

record instance_dir =
  data_wordpress :: wp_tree
  data_mysql :: "string list"
  config_dirs :: "string list"
  docker_compose_yml :: "compose option"
  dot_instance_info :: "instance_info option"

subsection \<open>The state the script works on\<close>

text \<open>
  \<open>dirs\<close>: the directories directly under \<^verbatim>\<open>/wordpress-instances\<close>, by name;
  \<open>config\<close>: the file \<^verbatim>\<open>.workspace-config.json\<close> there; \<open>networks\<close>: the networks of the
  container engine; \<open>running\<close>: the names \<^verbatim>\<open>docker ps\<close> prints; \<open>host_logs\<close>: the
  directories under \<^verbatim>\<open>/host-logs\<close>.
\<close>

record state =
  dirs :: "(string \<times> instance_dir) list"
  config :: "workspace option"
  networks :: "string list"
  running :: "string list"
  host_logs :: "string list"

datatype failure =
    Usage | AlreadyExists | InvalidWebserver | NotExist | SourceNotExist | TargetExists
  | InvalidStrategy | MkdirFailed | EngineFailed | CopyFailed | DumpDenied | ImportDenied

datatype outcome = Done | Cancelled | Failed failure

fun exit_code :: "outcome \<Rightarrow> nat" where
  "exit_code Done = 0"
| "exit_code Cancelled = 0"
| "exit_code (Failed e) = 1"

text \<open>
  \<^verbatim>\<open>[ -d "/wordpress-instances/${name}" ]\<close>. The empty name, \<^verbatim>\<open>.\<close> and \<^verbatim>\<open>..\<close> name directories
  that are always there.
\<close>

definition dir_exists :: "state \<Rightarrow> string \<Rightarrow> bool" where
  "dir_exists st name =
     (name = [] \<or> name = ''.'' \<or> name = ''..'' \<or> map_of (dirs st) name \<noteq> None)"

subsection \<open>Version codes, numbers and passwords\<close>

definition mysql_image_version :: "string \<Rightarrow> string" where
  "mysql_image_version v =
     (if v = ''56'' then ''5.6.51'' else if v = ''57'' then ''5.7.44''
      else if v = ''80'' then ''8.0.40'' else ''8.0.40'')"

definition php_image_version :: "string \<Rightarrow> string" where
  "php_image_version v =
     (if v = ''74'' then ''7.4.33'' else if v = ''80'' then ''8.0.30''
      else if v = ''81'' then ''8.1.31'' else if v = ''82'' then ''8.2.26''
      else if v = ''83'' then ''8.3.14'' else ''8.3.14'')"

definition mysql_full_version :: "string \<Rightarrow> string" where
  "mysql_full_version v =
     (if v = ''56'' then ''5.6'' else if v = ''57'' then ''5.7''
      else if v = ''80'' then ''8.0'' else ''8.0'')"

definition php_full_version :: "string \<Rightarrow> string" where
  "php_full_version v =
     (if v = ''74'' then ''7.4'' else if v = ''80'' then ''8.0''
      else if v = ''81'' then ''8.1'' else if v = ''82'' then ''8.2''
      else if v = ''83'' then ''8.3'' else ''8.3'')"

definition webserver_version :: "string \<Rightarrow> string" where
  "webserver_version ws = (if ws = ''nginx'' then ''1.27.3'' else ''2.4.62'')"

text \<open>A number as the shell prints it, in decimal.\<close>

definition digit_char :: "nat \<Rightarrow> char" where
  "digit_char d = ''0123456789'' ! d"

fun show_nat :: "nat \<Rightarrow> string" where
  "show_nat n = (if n < 10 then [digit_char n] else show_nat (n div 10) @ [digit_char (n mod 10)])"

declare show_nat.simps [simp del]

definition network_name_of :: "nat \<Rightarrow> string" where
  "network_name_of instance_id = NETWORK_PREFIX @ ''-'' @ show_nat instance_id"

definition subnet_of :: "nat \<Rightarrow> string" where
  "subnet_of instance_id = ''172.20.'' @ show_nat instance_id @ ''.0/24''"

text \<open>
  What is read from outside at one call: the two outputs of \<^verbatim>\<open>openssl rand -base64 32\<close>,
  \<^verbatim>\<open>date -Iseconds\<close> and jq's \<^verbatim>\<open>now | todate\<close>.
\<close>

record rnd =
  openssl_rand_1 :: string
  openssl_rand_2 :: string
  date_iseconds :: string
  jq_now :: string

text \<open>\<^verbatim>\<open>tr -d "=+/" | cut -c1-25\<close>\<close>

definition gen_password :: "string \<Rightarrow> string" where
  "gen_password raw = take 25 (filter (\<lambda>c. c \<notin> set ''=+/'') raw)"

subsection \<open>create\<close>

text \<open>The directory that the \<^verbatim>\<open>mkdir -p\<close> lines of \<^verbatim>\<open>create_instance\<close> leave.\<close>

definition fresh_dir :: "string \<Rightarrow> string \<Rightarrow> string \<Rightarrow> instance_dir" where
  "fresh_dir mysql_version php_version ws =
     \<lparr>data_wordpress = Tree [], data_mysql = [],
      config_dirs = [''php-'' @ php_full_version php_version,
                     ''mysql-'' @ mysql_full_version mysql_version,
                     ws @ ''-'' @ webserver_version ws],
      docker_compose_yml = None, dot_instance_info = None\<rparr>"

definition render_compose ::
  "env \<Rightarrow> string \<Rightarrow> string \<Rightarrow> string \<Rightarrow> string \<Rightarrow> string \<Rightarrow> string \<Rightarrow> int \<Rightarrow> string \<Rightarrow> compose" where
  "render_compose e name mysql_version php_version ws db_password db_root_password
       instance_port network_name =
     \<lparr>mysql_image = ''airoman/wp-dind:mysql-'' @ mysql_image_version mysql_version,
      mysql_container = name @ ''-mysql'',
      MYSQL_ROOT_PASSWORD = db_root_password,
      MYSQL_DATABASE = DEFAULT_DB_NAME e,
      MYSQL_USER = DEFAULT_DB_USER e,
      MYSQL_PASSWORD = db_password,
      php_image = ''airoman/wp-dind:php-'' @ php_image_version php_version,
      php_container = name @ ''-php'',
      web_image = ''airoman/wp-dind:'' @ ws @ ''-'' @ webserver_version ws,
      web_container = name @ ''-'' @ ws,
      published_port = instance_port,
      private_network = network_name\<rparr>"

definition render_info ::
  "string \<Rightarrow> string \<Rightarrow> string \<Rightarrow> string \<Rightarrow> string \<Rightarrow> int \<Rightarrow> string \<Rightarrow> string \<Rightarrow> string \<Rightarrow> instance_info" where
  "render_info name mysql_version php_version ws network_name instance_port now
       db_password db_root_password =
     \<lparr>NAME = name, MYSQL_VERSION = mysql_version, PHP_VERSION = php_version,
      WEBSERVER = ws, NETWORK = network_name, PORT = instance_port, CREATED = now,
      DB_PASSWORD = db_password, DB_ROOT_PASSWORD = db_root_password\<rparr>"

text \<open>\<^verbatim>\<open>docker network inspect n || docker network create n\<close>, once the create is known to succeed.\<close>

definition ensure_network :: "string \<Rightarrow> string list \<Rightarrow> string list" where
  "ensure_network n nets = (if n \<in> set nets then nets else nets @ [n])"

text \<open>
  \<^verbatim>\<open>create_instance\<close> (lines 133 to 379). The two checks come first. Then the directories are
  made; \<^verbatim>\<open>mkdir -p\<close> fails when the name is that of the configuration file and the file is
  there. The port is read from the configuration, the network number is the count of
  \<^verbatim>\<open>find /wordpress-instances -maxdepth 1 -type d\<close>, which counts the directory itself and
  the one just made. An existing network of that name is used as it is; a new one needs a
  valid subnet. Last come the compose file, the metadata and the configuration entry.
\<close>

definition create_instance ::
  "env \<Rightarrow> rnd \<Rightarrow> string \<Rightarrow> string \<Rightarrow> string \<Rightarrow> string \<Rightarrow> state \<Rightarrow> outcome \<times> state" where
  "create_instance e r name a2 a3 a4 st =
     (let mysql_version = or_default a2 (DEFAULT_MYSQL_VERSION e);
          php_version = or_default a3 (DEFAULT_PHP_VERSION e);
          ws = or_default a4 (DEFAULT_WEBSERVER e)
      in
      if dir_exists st name then (Failed AlreadyExists, st)
      else if ws \<noteq> ''nginx'' \<and> ws \<noteq> ''apache'' then (Failed InvalidWebserver, st)
      else if name = ''.workspace-config.json'' \<and> config st \<noteq> None then (Failed MkdirFailed, st)
      else
        let st1 = st\<lparr>dirs := dirs st @ [(name, fresh_dir mysql_version php_version ws)],
                     host_logs := List.insert name (host_logs st)\<rparr>;
            db_password = gen_password (openssl_rand_1 r);
            db_root_password = gen_password (openssl_rand_2 r);
            instance_port = get_next_port (config st1);
            instance_id = Suc (length (dirs st1));
            network_name = network_name_of instance_id
        in
        if network_name \<notin> set (networks st1) \<and> instance_id > 255 then (Failed EngineFailed, st1)
        else
          let nets = ensure_network ''wp-shared'' (ensure_network network_name (networks st1));
              d = (fresh_dir mysql_version php_version ws)
                    \<lparr>docker_compose_yml :=
                       Some (render_compose e name mysql_version php_version ws db_password
                               db_root_password instance_port network_name),
                     dot_instance_info :=
                       Some (render_info name mysql_version php_version ws network_name
                               instance_port (date_iseconds r) db_password db_root_password)\<rparr>
          in
          (Done,
           st1\<lparr>dirs := AList.update name d (dirs st1),
               networks := nets,
               config := save_instance_to_config name instance_port ws
                           (php_full_version php_version) (mysql_full_version mysql_version)
                           (jq_now r) (config st1)\<rparr>))"

subsection \<open>start, stop, remove\<close>

definition containers_of :: "compose \<Rightarrow> string list" where
  "containers_of c = [mysql_container c, php_container c, web_container c]"

definition add_running :: "string list \<Rightarrow> string list \<Rightarrow> string list" where
  "add_running cs rs = rs @ filter (\<lambda>c. c \<notin> set rs) cs"

definition drop_running :: "string list \<Rightarrow> string list \<Rightarrow> string list" where
  "drop_running cs rs = filter (\<lambda>c. c \<notin> set cs) rs"

text \<open>
  \<^verbatim>\<open>start_instance\<close>: the directory must be there, \<^verbatim>\<open>source .instance-info\<close> needs the file,
  \<^verbatim>\<open>docker-compose up -d\<close> runs the three containers of the compose file.
\<close>

definition start_instance :: "string \<Rightarrow> state \<Rightarrow> outcome \<times> state" where
  "start_instance name st =
     (if \<not> dir_exists st name then (Failed NotExist, st)
      else
        case map_of (dirs st) name of
          None \<Rightarrow> (Failed EngineFailed, st)
        | Some d \<Rightarrow>
            (case dot_instance_info d of
               None \<Rightarrow> (Failed EngineFailed, st)
             | Some i \<Rightarrow>
                 (case docker_compose_yml d of
                    None \<Rightarrow> (Failed EngineFailed, st)
                  | Some c \<Rightarrow> (Done, st\<lparr>running := add_running (containers_of c) (running st)\<rparr>))))"

definition stop_instance :: "string \<Rightarrow> state \<Rightarrow> outcome \<times> state" where
  "stop_instance name st =
     (if \<not> dir_exists st name then (Failed NotExist, st)
      else
        case map_of (dirs st) name of
          None \<Rightarrow> (Failed EngineFailed, st)
        | Some d \<Rightarrow>
            (case docker_compose_yml d of
               None \<Rightarrow> (Failed EngineFailed, st)
             | Some c \<Rightarrow> (Done, st\<lparr>running := drop_running (containers_of c) (running st)\<rparr>)))"

text \<open>
  \<^verbatim>\<open>remove_instance\<close>: any answer but \<^verbatim>\<open>yes\<close> cancels with status 0. \<^verbatim>\<open>docker-compose down -v\<close>
  removes the containers and leaves the networks, which the compose file declares
  external; then the directory and the configuration entry go.
\<close>

definition remove_instance :: "string \<Rightarrow> string \<Rightarrow> state \<Rightarrow> outcome \<times> state" where
  "remove_instance name confirm st =
     (if \<not> dir_exists st name then (Failed NotExist, st)
      else if confirm \<noteq> ''yes'' then (Cancelled, st)
      else
        case map_of (dirs st) name of
          None \<Rightarrow> (Failed EngineFailed, st)
        | Some d \<Rightarrow>
            (case docker_compose_yml d of
               None \<Rightarrow> (Failed EngineFailed, st)
             | Some c \<Rightarrow>
                 (Done,
                  st\<lparr>running := drop_running (containers_of c) (running st),
                     dirs := AList.delete name (dirs st),
                     config := remove_instance_from_config name (config st)\<rparr>)))"

subsection \<open>list and info\<close>

text \<open>
  \<^verbatim>\<open>grep -q "^${NAME}-"\<close> on the lines of \<^verbatim>\<open>docker ps --format '{{.Names}}'\<close>. The pattern is a
  basic regular expression anchored at the start of the line: a dot of the name stands
  for any character, every other character of a name for itself.
\<close>

fun bre_match_here :: "string \<Rightarrow> string \<Rightarrow> bool" where
  "bre_match_here [] s = True"
| "bre_match_here (p # ps) [] = False"
| "bre_match_here (p # ps) (c # cs) = ((p = CHR ''.'' \<or> p = c) \<and> bre_match_here ps cs)"

definition grep_q_anchored :: "string \<Rightarrow> string list \<Rightarrow> bool" where
  "grep_q_anchored pat ls = list_ex (bre_match_here pat) ls"

definition container_status :: "string \<Rightarrow> string list \<Rightarrow> string" where
  "container_status name ps =
     (if grep_q_anchored (name @ ''-'') ps then ''running'' else ''stopped'')"

text \<open>
  One line of \<^verbatim>\<open>list_instances\<close> per directory that \<^verbatim>\<open>/wordpress-instances/*\<close> matches (no
  name with a leading dot) and that has its \<^verbatim>\<open>.instance-info\<close>: name, MySQL, PHP, web server,
  network, status. The glob's sorting is not modelled: the lines come in directory order.
\<close>

definition list_row :: "string list \<Rightarrow> instance_info \<Rightarrow> string list" where
  "list_row ps i =
     [NAME i, MYSQL_VERSION i, PHP_VERSION i, WEBSERVER i, NETWORK i, container_status (NAME i) ps]"

definition list_instances :: "state \<Rightarrow> string list list" where
  "list_instances st =
     List.map_filter
       (\<lambda>(n, d). if take 1 n = ''.'' then None else map_option (list_row (running st)) (dot_instance_info d))
       (dirs st)"

text \<open>\<^verbatim>\<open>show_info\<close>: the metadata and the status line, \<^verbatim>\<open>Running\<close> or \<^verbatim>\<open>Stopped\<close>.\<close>

definition show_info :: "string \<Rightarrow> state \<Rightarrow> (instance_info \<times> string) option" where
  "show_info name st =
     (case map_of (dirs st) name of
        None \<Rightarrow> None
      | Some d \<Rightarrow>
          (case dot_instance_info d of
             None \<Rightarrow> None
           | Some i \<Rightarrow>
               Some (i, if grep_q_anchored (NAME i @ ''-'') (running st) then ''Running'' else ''Stopped'')))"

subsection \<open>clone\<close>

definition set_dir :: "string \<Rightarrow> (instance_dir \<Rightarrow> instance_dir) \<Rightarrow> state \<Rightarrow> state" where
  "set_dir name f st = st\<lparr>dirs := map (\<lambda>(n, d). if n = name then (n, f d) else (n, d)) (dirs st)\<rparr>"

text \<open>
  \<^verbatim>\<open>clone_instance\<close> (lines 479 to 574). Sourcing the metadata of the source sets the shell
  variable \<^verbatim>\<open>DB_ROOT_PASSWORD\<close> to the root password of the source; \<^verbatim>\<open>create_instance\<close> keeps
  the passwords it generates in local variables, so the variable still holds the
  password of the source when \<^verbatim>\<open>mysqldump\<close> and then \<^verbatim>\<open>mysql\<close> are run with it. Each of the two
  is let in by the server it talks to only with that server's own root password.
  \<^verbatim>\<open>cp -a\<close> copies a tree, and copies a link as a link. The import of a dump replaces the
  tables of the database.
\<close>

definition link_files :: "string \<Rightarrow> string \<Rightarrow> state \<Rightarrow> state" where
  "link_files source_name target_name st =
     set_dir target_name (\<lambda>d. d\<lparr>data_wordpress := Symlink source_name\<rparr>) st"

definition copy_files :: "string \<Rightarrow> string \<Rightarrow> state \<Rightarrow> state option" where
  "copy_files source_name target_name st =
     (case map_of (dirs st) source_name of
        None \<Rightarrow> None
      | Some sd \<Rightarrow> Some (set_dir target_name (\<lambda>d. d\<lparr>data_wordpress := data_wordpress sd\<rparr>) st))"

text \<open>
  The database half of \<^verbatim>\<open>copy-all\<close>: both MySQL containers are started, the source is
  dumped and the dump is fed to the target, both times as root with \<open>pw\<close>, the value of the
  shell variable \<^verbatim>\<open>DB_ROOT_PASSWORD\<close>.
\<close>

definition copy_database :: "string \<Rightarrow> string \<Rightarrow> string \<Rightarrow> compose \<Rightarrow> state \<Rightarrow> outcome \<times> state" where
  "copy_database pw source_name target_name tc st =
     (case map_of (dirs st) source_name of
        None \<Rightarrow> (Failed EngineFailed, st)
      | Some sd \<Rightarrow>
          (case docker_compose_yml sd of
             None \<Rightarrow> (Failed EngineFailed, st)
           | Some sc \<Rightarrow>
               let st1 = st\<lparr>running := add_running [mysql_container tc]
                                         (add_running [mysql_container sc] (running st))\<rparr>
               in
               if pw \<noteq> MYSQL_ROOT_PASSWORD sc then (Failed DumpDenied, st1)
               else if pw \<noteq> MYSQL_ROOT_PASSWORD tc then (Failed ImportDenied, st1)
               else (Done, set_dir target_name (\<lambda>d. d\<lparr>data_mysql := data_mysql sd\<rparr>) st1)))"

definition apply_strategy ::
  "string \<Rightarrow> instance_info \<Rightarrow> string \<Rightarrow> string \<Rightarrow> compose \<Rightarrow> state \<Rightarrow> outcome \<times> state" where
  "apply_strategy strategy src source_name target_name tc st =
     (if strategy = ''symlink'' then (Done, link_files source_name target_name st)
      else
        case copy_files source_name target_name st of
          None \<Rightarrow> (Failed CopyFailed, st)
        | Some st1 \<Rightarrow>
            if strategy = ''copy-all''
            then copy_database (DB_ROOT_PASSWORD src) source_name target_name tc st1
            else (Done, st1))"

text \<open>
  After the strategy: \<^verbatim>\<open>docker-compose start\<close> in the directory of the target, reached only
  when every step before it succeeded.
\<close>

definition start_target :: "compose \<Rightarrow> outcome \<times> state \<Rightarrow> outcome \<times> state" where
  "start_target tc res =
     (if fst res = Done
      then (Done, (snd res)\<lparr>running := add_running (containers_of tc) (running (snd res))\<rparr>)
      else res)"

definition clone_instance ::
  "env \<Rightarrow> rnd \<Rightarrow> string \<Rightarrow> string \<Rightarrow> string \<Rightarrow> state \<Rightarrow> outcome \<times> state" where
  "clone_instance e r source_name target_name a3 st =
     (let strategy = or_default a3 ''symlink'' in
      case Option.bind (map_of (dirs st) source_name) dot_instance_info of
        None \<Rightarrow> (Failed SourceNotExist, st)
      | Some src \<Rightarrow>
          if dir_exists st target_name then (Failed TargetExists, st)
          else if strategy \<noteq> ''symlink'' \<and> strategy \<noteq> ''copy-all'' \<and> strategy \<noteq> ''copy-files''
          then (Failed InvalidStrategy, st)
          else
            let created = create_instance e r target_name (MYSQL_VERSION src) (PHP_VERSION src)
                            (WEBSERVER src) st;
                st1 = snd created
            in
            if fst created \<noteq> Done then created
            else
              (case Option.bind (map_of (dirs st1) target_name) docker_compose_yml of
                 None \<Rightarrow> (Failed EngineFailed, st1)
               | Some tc \<Rightarrow>
                   start_target tc
                     (apply_strategy strategy src source_name target_name tc
                        (st1\<lparr>running := drop_running (containers_of tc) (running st1)\<rparr>))))"

subsection \<open>The command line\<close>

datatype command =
    Create rnd string string string string
  | Start string
  | Stop string
  | Remove string string
  | Clone rnd string string string

text \<open>
  The \<^verbatim>\<open>case\<close> at the end of the script: an empty first argument prints the usage and exits
  with 1; \<^verbatim>\<open>create\<close> fills in 80, 83 and nginx for arguments left out. The second argument
  of \<open>Remove\<close> is the answer typed at the prompt.
\<close>

definition main :: "env \<Rightarrow> command \<Rightarrow> state \<Rightarrow> outcome \<times> state" where
  "main e cmd st =
     (case cmd of
        Create r name a3 a4 a5 \<Rightarrow>
          (if name = [] then (Failed Usage, st)
           else create_instance e r name (or_default a3 ''80'') (or_default a4 ''83'')
                  (or_default a5 ''nginx'') st)
      | Start name \<Rightarrow> (if name = [] then (Failed Usage, st) else start_instance name st)
      | Stop name \<Rightarrow> (if name = [] then (Failed Usage, st) else stop_instance name st)
      | Remove name confirm \<Rightarrow>
          (if name = [] then (Failed Usage, st) else remove_instance name confirm st)
      | Clone r source_name target_name a4 \<Rightarrow>
          (if source_name = [] then (Failed Usage, st)
           else clone_instance e r source_name target_name (or_default a4 ''symlink'') st))"

text \<open>One invocation after the other, each on the state the one before left.\<close>

fun run :: "env \<Rightarrow> command list \<Rightarrow> state \<Rightarrow> state" where
  "run e [] st = st"
| "run e (c # cs) st = run e cs (snd (main e c st))"

text \<open>A workspace with no instance: nothing but, perhaps, the configuration file.\<close>

definition empty_workspace :: "workspace option \<Rightarrow> state" where
  "empty_workspace cfg = \<lparr>dirs = [], config = cfg, networks = [], running = [], host_logs = []\<rparr>"

subsection \<open>Reading the state\<close>

text \<open>The metadata file of the instance directory of that name, when both are there.\<close>

definition info_of :: "state \<Rightarrow> string \<Rightarrow> instance_info option" where
  "info_of st name = Option.bind (map_of (dirs st) name) dot_instance_info"

text \<open>No two entries of the configuration with the same port; no file, no entries.\<close>

definition ports_unique :: "workspace option \<Rightarrow> bool" where
  "ports_unique cfg = (case cfg of None \<Rightarrow> True | Some w \<Rightarrow> distinct (ports_of w))"

definition no_instances :: "workspace option \<Rightarrow> bool" where
  "no_instances cfg = (case cfg of None \<Rightarrow> True | Some w \<Rightarrow> instances w = [])"

text \<open>
  The format of instance names that the specification gives, \<^verbatim>\<open>[A-Za-z0-9_-]+\<close>. It is the
  specification's: no line of the script tests a name against it.
\<close>

definition name_char :: "char \<Rightarrow> bool" where
  "name_char c =
     (c \<in> set ''ABCDEFGHIJKLMNOPQRSTUVWXYZabcdefghijklmnopqrstuvwxyz0123456789_-'')"

definition name_format_ok :: "string \<Rightarrow> bool" where
  "name_format_ok name = (name \<noteq> [] \<and> list_all name_char name)"

subsection \<open>The loaders of the command line tool\<close>

datatype json =
    JNull | JBool bool | JNum int | JStr string | JArr "json list" | JObj "(string \<times> json) list"









subsection \<open>Sample inputs\<close>

text \<open>Concrete inputs at which the properties below are exercised.\<close>

definition sample_rnd :: "string \<Rightarrow> rnd" where
  "sample_rnd seed =
     \<lparr>openssl_rand_1 = seed @ ''Qk+9x/Zr3TtYw2LmNc8VbHs5JdPf7GgA1Ue4RoXi6Ky='',
      openssl_rand_2 = seed @ ''h0Mz/uW+pE5nBq2SvCj8DyFa3KtLg7RxOi1Tc9YbNw4='',
      date_iseconds = ''2025-01-01T00:00:00+00:00'',
      jq_now = ''2025-01-01T00:00:00Z''\<rparr>"

definition sample_workspace :: workspace where
  "sample_workspace =
     \<lparr>workspaceName = ''demo'', workspaceType = ''multi-instance'', instances = []\<rparr>"

definition sample_entry :: "int option \<Rightarrow> config_instance" where
  "sample_entry p =
     \<lparr>port = p, stack = \<lparr>webserver = ''nginx'', phpVersion = ''8.3'', mysqlVersion = ''8.0''\<rparr>,
      createdAt = ''2025-01-01T00:00:00Z'', status = ''created''\<rparr>"

text \<open>A configuration whose ports are out of order, one entry having none.\<close>

definition sample_config :: workspace where
  "sample_config =
     sample_workspace\<lparr>instances :=
       [(''b'', sample_entry (Some 8005)), (''c'', sample_entry None), (''a'', sample_entry (Some 8001))]\<rparr>"




section \<open>Properties\<close>

subsection \<open>The port allocator\<close>

lemma scan_ports_fold: "scan_ports m ps = fold max (map (\<lambda>p. p + 1) ps) m"
  by (induction ps arbitrary: m) (auto simp: max_def)

lemma scan_ports_Max: "scan_ports m ps = Max (insert m ((\<lambda>p. p + 1) ` set ps))"
proof -
  have "scan_ports m ps = Max (set (m # map (\<lambda>p. p + 1) ps))"
    unfolding scan_ports_fold by (simp only: Max.set_eq_fold)
  then show ?thesis by simp
qed


lemma scan_ports_gt:
  assumes "p \<in> set ps"
  shows "p < scan_ports m ps"
proof -
  have "p + 1 \<in> insert m ((\<lambda>p. p + 1) ` set ps)"
    using assms by simp
  then have "p + 1 \<le> Max (insert m ((\<lambda>p. p + 1) ` set ps))"
    by (intro Max_ge) auto
  then show ?thesis
    by (simp add: scan_ports_Max)
qed


lemma ports_of_update_set:
  "set (List.map_filter (\<lambda>e. port (snd e)) (AList.update k v al))
     \<subseteq> set (List.map_filter (\<lambda>e. port (snd e)) al) \<union> set_option (port v)"
  by (induction al) (auto split: option.splits)

lemma ports_of_update_distinct:
  assumes "distinct (List.map_filter (\<lambda>e. port (snd e)) al)"
    and "port v = Some p" and "p \<notin> set (List.map_filter (\<lambda>e. port (snd e)) al)"
  shows "distinct (List.map_filter (\<lambda>e. port (snd e)) (AList.update k v al))"
  using assms
proof (induction al)
  case Nil
  then show ?case by simp
next
  case (Cons a al)
  obtain k' v' where a: "a = (k', v')" by (cases a)
  show ?case
  proof (cases "k' = k")
    case True
    with Cons.prems a show ?thesis
      by (auto split: option.splits)
  next
    case False
    have sub: "set (List.map_filter (\<lambda>e. port (snd e)) (AList.update k v al))
        \<subseteq> set (List.map_filter (\<lambda>e. port (snd e)) al) \<union> {p}"
      using ports_of_update_set [of k v al] Cons.prems(2) by simp
    from False Cons a sub show ?thesis
      by (auto split: option.splits)
  qed
qed

lemma ports_of_delete_distinct:
  "distinct (List.map_filter (\<lambda>e. port (snd e)) al)
   \<Longrightarrow> distinct (List.map_filter (\<lambda>e. port (snd e)) (AList.delete k al))"
proof (induction al)
  case Nil
  then show ?case by simp
next
  case (Cons a al)
  have sub: "set (List.map_filter (\<lambda>e. port (snd e)) (AList.delete k al))
      \<subseteq> set (List.map_filter (\<lambda>e. port (snd e)) al)"
    by (induction al) (auto split: option.splits)
  from Cons sub show ?case
    by (cases a) (auto split: option.splits)
qed

lemma ports_unique_save:
  "ports_unique cfg \<Longrightarrow>
   ports_unique (save_instance_to_config name (get_next_port cfg) ws php mysql now cfg)"
proof (cases cfg)
  case None
  then show ?thesis by (simp add: save_instance_to_config_def ports_unique_def)
next
  case (Some w)
  assume "ports_unique cfg"
  with Some have d: "distinct (ports_of w)" by (simp add: ports_unique_def)
  have fresh: "get_next_port cfg \<notin> set (ports_of w)"
    using scan_ports_gt [of "get_next_port cfg" "ports_of w" INSTANCE_PORT_START] Some
    by (auto simp: get_next_port_def)
  show ?thesis
    using Some d fresh
    by (simp add: save_instance_to_config_def ports_unique_def ports_of_def
        ports_of_update_distinct)
qed

lemma ports_unique_remove:
  "ports_unique cfg \<Longrightarrow> ports_unique (remove_instance_from_config name cfg)"
  by (cases cfg) (simp_all add: remove_instance_from_config_def ports_unique_def ports_of_def
      ports_of_delete_distinct)

subsection \<open>What create leaves\<close>

lemma update_appended:
  "map_of al k = None \<Longrightarrow> AList.update k v (al @ [(k, u)]) = al @ [(k, v)]"
  by (induction al) (auto split: if_splits)




lemma create_instance_Done_iff:
  "fst (create_instance e r name a2 a3 a4 st) = Done \<longleftrightarrow>
     \<not> dir_exists st name \<and>
     (or_default a4 (DEFAULT_WEBSERVER e) = ''nginx'' \<or> or_default a4 (DEFAULT_WEBSERVER e) = ''apache'') \<and>
     \<not> (name = ''.workspace-config.json'' \<and> config st \<noteq> None) \<and>
     (network_name_of (length (dirs st) + 2) \<in> set (networks st) \<or> length (dirs st) + 2 \<le> 255)"
  unfolding create_instance_def Let_def by auto

lemma create_instance_Done_state:
  assumes "fst (create_instance e r name a2 a3 a4 st) = Done"
  shows "snd (create_instance e r name a2 a3 a4 st) =
    st\<lparr>dirs := dirs st @
           [(name,
             (fresh_dir (or_default a2 (DEFAULT_MYSQL_VERSION e)) (or_default a3 (DEFAULT_PHP_VERSION e))
                (or_default a4 (DEFAULT_WEBSERVER e)))
              \<lparr>docker_compose_yml :=
                 Some (render_compose e name (or_default a2 (DEFAULT_MYSQL_VERSION e))
                   (or_default a3 (DEFAULT_PHP_VERSION e)) (or_default a4 (DEFAULT_WEBSERVER e))
                   (gen_password (openssl_rand_1 r)) (gen_password (openssl_rand_2 r))
                   (get_next_port (config st)) (network_name_of (length (dirs st) + 2))),
               dot_instance_info :=
                 Some (render_info name (or_default a2 (DEFAULT_MYSQL_VERSION e))
                   (or_default a3 (DEFAULT_PHP_VERSION e)) (or_default a4 (DEFAULT_WEBSERVER e))
                   (network_name_of (length (dirs st) + 2)) (get_next_port (config st))
                   (date_iseconds r) (gen_password (openssl_rand_1 r))
                   (gen_password (openssl_rand_2 r)))\<rparr>)],
        host_logs := List.insert name (host_logs st),
        networks := ensure_network ''wp-shared''
           (ensure_network (network_name_of (length (dirs st) + 2)) (networks st)),
        config := save_instance_to_config name (get_next_port (config st))
           (or_default a4 (DEFAULT_WEBSERVER e))
           (php_full_version (or_default a3 (DEFAULT_PHP_VERSION e)))
           (mysql_full_version (or_default a2 (DEFAULT_MYSQL_VERSION e)))
           (jq_now r) (config st)\<rparr>"
proof -
  from assms have free: "map_of (dirs st) name = None"
    by (simp add: create_instance_Done_iff dir_exists_def)
  from assms show ?thesis
    unfolding create_instance_def Let_def
    by (auto simp: update_appended [OF free] split: if_splits)
qed

lemma create_instance_not_Done:
  assumes "fst (create_instance e r name a2 a3 a4 st) \<noteq> Done"
  shows "config (snd (create_instance e r name a2 a3 a4 st)) = config st"
  using assms unfolding create_instance_def Let_def
  by (auto split: if_splits)

subsection \<open>Claims about the port allocator\<close>



subsection \<open>What each command does to the configuration file\<close>

lemma set_dir_fields [simp]:
  "config (set_dir n f st) = config st"
  "networks (set_dir n f st) = networks st"
  "running (set_dir n f st) = running st"
  "host_logs (set_dir n f st) = host_logs st"
  by (simp_all add: set_dir_def)


lemma length_dirs_set_dir [simp]: "length (dirs (set_dir n f st)) = length (dirs st)"
  by (simp add: set_dir_def)

lemma copy_files_config: "copy_files s t st = Some st' \<Longrightarrow> config st' = config st"
  by (auto simp: copy_files_def split: option.splits)

lemma copy_database_config: "config (snd (copy_database pw s t tc st)) = config st"
  by (simp add: copy_database_def Let_def split: option.splits)

lemma apply_strategy_config: "config (snd (apply_strategy strategy src s t tc st)) = config st"
  by (auto simp: apply_strategy_def link_files_def copy_database_config
      dest: copy_files_config split: option.splits)

lemma start_target_config: "config (snd (start_target tc res)) = config (snd res)"
  by (simp add: start_target_def)

lemma create_instance_config:
  assumes "P (config st)"
    and "\<And>ws php mysql. P (save_instance_to_config name (get_next_port (config st)) ws php mysql
           (jq_now r) (config st))"
  shows "P (config (snd (create_instance e r name a2 a3 a4 st)))"
proof (cases "fst (create_instance e r name a2 a3 a4 st) = Done")
  case True
  from create_instance_Done_state [OF True] assms(2) show ?thesis
    by simp
next
  case False
  with assms(1) show ?thesis
    by (simp add: create_instance_not_Done)
qed

lemma clone_instance_config:
  assumes "P (config st)"
    and "\<And>ws php mysql. P (save_instance_to_config t (get_next_port (config st)) ws php mysql
           (jq_now r) (config st))"
  shows "P (config (snd (clone_instance e r s t a st)))"
proof (cases "Option.bind (map_of (dirs st) s) dot_instance_info")
  case None
  with assms(1) show ?thesis
    by (simp add: clone_instance_def)
next
  case (Some src)
  let ?c = "create_instance e r t (MYSQL_VERSION src) (PHP_VERSION src) (WEBSERVER src) st"
  have "P (config (snd ?c))"
    using assms by (rule create_instance_config)
  moreover have "config (snd (clone_instance e r s t a st)) = config st \<or>
      config (snd (clone_instance e r s t a st)) = config (snd ?c)"
    using Some unfolding clone_instance_def Let_def
    by (simp add: start_target_config apply_strategy_config split: option.splits)
  ultimately show ?thesis
    using assms(1) by auto
qed

lemma main_config:
  assumes "P (config st)"
    and "\<And>name ws php mysql now.
           P (save_instance_to_config name (get_next_port (config st)) ws php mysql now (config st))"
    and "\<And>name. P (remove_instance_from_config name (config st))"
  shows "P (config (snd (main e c st)))"
proof (cases c)
  case (Create r name a3 a4 a5)
  have "P (config (snd (create_instance e r name (or_default a3 ''80'') (or_default a4 ''83'')
      (or_default a5 ''nginx'') st)))"
    using assms(1,2) by (rule create_instance_config)
  with Create assms(1) show ?thesis
    by (simp add: main_def)
next
  case (Start name)
  with assms(1) show ?thesis
    by (simp add: main_def start_instance_def split: option.splits)
next
  case (Stop name)
  with assms(1) show ?thesis
    by (simp add: main_def stop_instance_def split: option.splits)
next
  case (Remove name confirm)
  with assms(1,3) show ?thesis
    by (simp add: main_def remove_instance_def split: option.splits)
next
  case (Clone r s t a)
  have "P (config (snd (clone_instance e r s t (or_default a ''symlink'') st)))"
    using assms(1,2) by (rule clone_instance_config)
  with Clone assms(1) show ?thesis
    by (simp add: main_def)
qed

lemma main_ports_unique:
  "ports_unique (config st) \<Longrightarrow> ports_unique (config (snd (main e c st)))"
  by (rule main_config) (simp_all add: ports_unique_save ports_unique_remove)

lemma run_ports_unique:
  "ports_unique (config st) \<Longrightarrow> ports_unique (config (run e cs st))"
  by (induction cs arbitrary: st) (simp_all add: main_ports_unique)

lemma main_config_None: "config st = None \<Longrightarrow> config (snd (main e c st)) = None"
  by (rule main_config [where P = "\<lambda>c. c = None"])
    (simp_all add: save_instance_to_config_def remove_instance_from_config_def)

lemma run_config_None: "config st = None \<Longrightarrow> config (run e cs st) = None"
  by (induction cs arbitrary: st) (simp_all add: main_config_None)

lemma map_of_appended:
  "map_of al k = None \<Longrightarrow> map_of (al @ [(k, v)]) k = Some v"
  "k' \<noteq> k \<Longrightarrow> map_of (al @ [(k, v)]) k' = map_of al k'"
  by (induction al) auto

lemma create_instance_free:
  "fst (create_instance e r name a2 a3 a4 st) = Done \<Longrightarrow> map_of (dirs st) name = None"
  by (simp add: create_instance_Done_iff dir_exists_def)

lemma create_instance_info_of:
  assumes "fst (create_instance e r name a2 a3 a4 st) = Done"
  shows "info_of (snd (create_instance e r name a2 a3 a4 st)) name =
    Some (render_info name (or_default a2 (DEFAULT_MYSQL_VERSION e))
      (or_default a3 (DEFAULT_PHP_VERSION e)) (or_default a4 (DEFAULT_WEBSERVER e))
      (network_name_of (length (dirs st) + 2)) (get_next_port (config st))
      (date_iseconds r) (gen_password (openssl_rand_1 r)) (gen_password (openssl_rand_2 r)))"
  by (simp add: create_instance_Done_state [OF assms] info_of_def
      map_of_appended(1) [OF create_instance_free [OF assms]] del: map_of_append)

lemma create_instance_compose_of:
  assumes "fst (create_instance e r name a2 a3 a4 st) = Done"
  shows "Option.bind (map_of (dirs (snd (create_instance e r name a2 a3 a4 st))) name) docker_compose_yml =
    Some (render_compose e name (or_default a2 (DEFAULT_MYSQL_VERSION e))
      (or_default a3 (DEFAULT_PHP_VERSION e)) (or_default a4 (DEFAULT_WEBSERVER e))
      (gen_password (openssl_rand_1 r)) (gen_password (openssl_rand_2 r))
      (get_next_port (config st)) (network_name_of (length (dirs st) + 2)))"
  by (simp add: create_instance_Done_state [OF assms]
      map_of_appended(1) [OF create_instance_free [OF assms]] del: map_of_append)

lemma create_instance_other_dirs:
  assumes "fst (create_instance e r name a2 a3 a4 st) = Done" and "k \<noteq> name"
  shows "map_of (dirs (snd (create_instance e r name a2 a3 a4 st))) k = map_of (dirs st) k"
  by (simp add: create_instance_Done_state [OF assms(1)] map_of_appended(2) [OF assms(2)]
      del: map_of_append)

subsection \<open>Claims about the configuration file\<close>

text \<open>
  C2. From a workspace without instances, after any number of commands of any sequence
  of create, start, stop, remove and clone, no two entries of the configuration file
  have the same port; and every single command keeps that property.
\<close>

theorem ports_stay_unique:
  "(no_instances cfg \<longrightarrow> ports_unique (config (run e (take n cmds) (empty_workspace cfg)))) \<and>
   (ports_unique (config st) \<longrightarrow> ports_unique (config (snd (main e c st))))"
proof -
  have "ports_unique (config (empty_workspace cfg))" if "no_instances cfg"
    using that
    by (cases cfg) (simp_all add: ports_unique_def no_instances_def empty_workspace_def ports_of_def)
  then show ?thesis
    by (simp add: run_ports_unique main_ports_unique)
qed

theorem ports_stay_unique_witness:
  "no_instances (Some sample_workspace) \<and>
   ports_unique (config (run default_env
     [Create (sample_rnd ''a'') ''alpha'' ''80'' ''83'' ''nginx'',
      Create (sample_rnd ''b'') ''beta'' ''80'' ''83'' ''nginx'',
      Remove ''alpha'' ''yes'',
      Clone (sample_rnd ''c'') ''beta'' ''gamma'' ''copy-files'']
     (empty_workspace (Some sample_workspace)))) \<and>
   ports_unique (config (snd (main default_env (Create (sample_rnd ''a'') ''alpha'' ''80'' ''83'' ''nginx'')
     (empty_workspace (Some sample_config)))))"
proof -
  have n: "no_instances (Some sample_workspace)"
    by (simp add: no_instances_def sample_workspace_def)
  have u: "ports_unique (config (empty_workspace (Some sample_config)))"
    by (simp add: ports_unique_def empty_workspace_def ports_of_def sample_config_def sample_entry_def)
  show ?thesis
    using n u
      ports_stay_unique [of "Some sample_workspace" default_env 4
        "[Create (sample_rnd ''a'') ''alpha'' ''80'' ''83'' ''nginx'',
          Create (sample_rnd ''b'') ''beta'' ''80'' ''83'' ''nginx'',
          Remove ''alpha'' ''yes'',
          Clone (sample_rnd ''c'') ''beta'' ''gamma'' ''copy-files'']"
        "empty_workspace (Some sample_config)" 
        "Create (sample_rnd ''a'') ''alpha'' ''80'' ''83'' ''nginx''"]
    by simp
qed

text \<open>
  C9. When the configuration file does not exist, \<open>save_instance_to_config\<close> writes nothing
  and a create that succeeds leaves the directory of the instance with its metadata,
  port 8001 in it, and still no configuration file; after any further commands there is
  still none, and \<open>get_next_port\<close> still answers 8001.
\<close>

theorem create_without_config_file:
  "save_instance_to_config name p ws php mysql now None = None \<and>
   (config st = None \<and> fst (create_instance e r name a2 a3 a4 st) = Done \<longrightarrow>
      config (snd (create_instance e r name a2 a3 a4 st)) = None \<and>
      map_of (dirs (snd (create_instance e r name a2 a3 a4 st))) name \<noteq> None \<and>
      map_option PORT (info_of (snd (create_instance e r name a2 a3 a4 st)) name) = Some 8001 \<and>
      (\<forall>cmds. config (run e' cmds (snd (create_instance e r name a2 a3 a4 st))) = None \<and>
         get_next_port (config (run e' cmds (snd (create_instance e r name a2 a3 a4 st)))) = 8001))"
proof -
  have "save_instance_to_config name p ws php mysql now None = None"
    by (simp add: save_instance_to_config_def)
  moreover {
    assume c: "config st = None" and d: "fst (create_instance e r name a2 a3 a4 st) = Done"
    let ?st = "snd (create_instance e r name a2 a3 a4 st)"
    have 1: "config ?st = None"
      using c by (simp add: create_instance_Done_state [OF d] save_instance_to_config_def)
    have 2: "map_of (dirs ?st) name \<noteq> None"
      by (simp add: create_instance_Done_state [OF d]
          map_of_appended(1) [OF create_instance_free [OF d]] del: map_of_append)
    have 3: "map_option PORT (info_of ?st name) = Some 8001"
      using c
      by (simp add: create_instance_info_of [OF d] render_info_def get_next_port_def
          INSTANCE_PORT_START_def)
    have 4: "\<forall>cmds. config (run e' cmds ?st) = None \<and> get_next_port (config (run e' cmds ?st)) = 8001"
      by (simp add: run_config_None [OF 1] get_next_port_def INSTANCE_PORT_START_def)
    note 1 2 3 4
  }
  ultimately show ?thesis
    by blast
qed

theorem create_without_config_file_witness:
  "config (empty_workspace None) = None \<and>
   fst (create_instance default_env (sample_rnd ''a'') ''alpha'' ''80'' ''83'' ''nginx''
          (empty_workspace None)) = Done \<and>
   map_option PORT (info_of (snd (create_instance default_env (sample_rnd ''a'') ''alpha'' ''80'' ''83''
          ''nginx'' (empty_workspace None))) ''alpha'') = Some 8001 \<and>
   get_next_port (config (run default_env [Create (sample_rnd ''b'') ''beta'' ''80'' ''83'' ''nginx'']
     (snd (create_instance default_env (sample_rnd ''a'') ''alpha'' ''80'' ''83'' ''nginx''
          (empty_workspace None))))) = 8001"
proof -
  have c: "config (empty_workspace None) = None"
    by (simp add: empty_workspace_def)
  have d: "fst (create_instance default_env (sample_rnd ''a'') ''alpha'' ''80'' ''83'' ''nginx''
          (empty_workspace None)) = Done"
    by (simp add: create_instance_Done_iff dir_exists_def empty_workspace_def or_default_def)
  note t = create_without_config_file [where name = "''alpha''" and st = "empty_workspace None"
        and e = default_env and r = "sample_rnd ''a''" and ?a2.0 = "''80''" and ?a3.0 = "''83''"
        and ?a4.0 = "''nginx''" and e' = default_env and p = 8001 and ws = "''nginx''"
        and php = "''8.3''" and mysql = "''8.0''" and now = "''now''",
        THEN conjunct2, THEN mp, OF conjI [OF c d]]
  from t have p: "map_option PORT (info_of (snd (create_instance default_env (sample_rnd ''a'')
      ''alpha'' ''80'' ''83'' ''nginx'' (empty_workspace None))) ''alpha'') = Some 8001"
    by blast
  from t have "\<forall>cmds. get_next_port (config (run default_env cmds
      (snd (create_instance default_env (sample_rnd ''a'') ''alpha'' ''80'' ''83'' ''nginx''
          (empty_workspace None))))) = 8001"
    by blast
  with c d p show ?thesis
    by blast
qed

subsection \<open>Claims about rejected commands\<close>

text \<open>
  C4. A create whose instance directory exists already, or whose web server is neither
  nginx nor apache, ends with status 1 and leaves the whole state as it was: the
  configuration file, the instance directories and everything else. This holds of
  \<open>create_instance\<close> and of the command line.
\<close>

theorem create_rejects_before_side_effects:
  "(dir_exists st name \<or>
      (or_default a4 (DEFAULT_WEBSERVER e) \<noteq> ''nginx'' \<and> or_default a4 (DEFAULT_WEBSERVER e) \<noteq> ''apache'')
    \<longrightarrow> exit_code (fst (create_instance e r name a2 a3 a4 st)) = 1 \<and>
        snd (create_instance e r name a2 a3 a4 st) = st) \<and>
   (dir_exists st name \<or> (a5 \<noteq> [] \<and> a5 \<noteq> ''nginx'' \<and> a5 \<noteq> ''apache'')
    \<longrightarrow> exit_code (fst (main e (Create r name b3 b4 a5) st)) = 1 \<and>
        snd (main e (Create r name b3 b4 a5) st) = st)"
  by (auto simp: create_instance_def main_def Let_def or_default_def)

theorem create_rejects_before_side_effects_witness:
  "exit_code (fst (main default_env (Create (sample_rnd ''a'') ''alpha'' ''80'' ''83'' ''caddy'')
      (empty_workspace (Some sample_workspace)))) = 1 \<and>
   snd (main default_env (Create (sample_rnd ''a'') ''alpha'' ''80'' ''83'' ''caddy'')
      (empty_workspace (Some sample_workspace))) = empty_workspace (Some sample_workspace) \<and>
   dir_exists (run default_env [Create (sample_rnd ''a'') ''alpha'' ''80'' ''83'' ''nginx'']
      (empty_workspace (Some sample_workspace))) ''alpha'' \<and>
   exit_code (fst (create_instance default_env (sample_rnd ''b'') ''alpha'' ''57'' ''74'' ''apache''
      (run default_env [Create (sample_rnd ''a'') ''alpha'' ''80'' ''83'' ''nginx'']
         (empty_workspace (Some sample_workspace))))) = 1 \<and>
   snd (create_instance default_env (sample_rnd ''b'') ''alpha'' ''57'' ''74'' ''apache''
      (run default_env [Create (sample_rnd ''a'') ''alpha'' ''80'' ''83'' ''nginx'']
         (empty_workspace (Some sample_workspace)))) =
     run default_env [Create (sample_rnd ''a'') ''alpha'' ''80'' ''83'' ''nginx'']
         (empty_workspace (Some sample_workspace))"
proof -
  let ?st = "run default_env [Create (sample_rnd ''a'') ''alpha'' ''80'' ''83'' ''nginx'']
      (empty_workspace (Some sample_workspace))"
  have d: "dir_exists ?st ''alpha''"
    by (simp add: main_def create_instance_def Let_def or_default_def dir_exists_def
        empty_workspace_def)
  have w: "''caddy'' \<noteq> [] \<and> ''caddy'' \<noteq> ''nginx'' \<and> ''caddy'' \<noteq> ''apache''"
    by simp
  note t1 = create_rejects_before_side_effects [where ?a5.0 = "''caddy''" and e = default_env
      and r = "sample_rnd ''a''" and name = "''alpha''" and ?b3.0 = "''80''" and ?b4.0 = "''83''"
      and st = "empty_workspace (Some sample_workspace)" and ?a2.0 = "''80''" and ?a3.0 = "''83''"
      and ?a4.0 = "''caddy''", THEN conjunct2, THEN mp, OF disjI2, OF w]
  note t2 = create_rejects_before_side_effects [where st = ?st and e = default_env
      and r = "sample_rnd ''b''" and name = "''alpha''" and ?a2.0 = "''57''" and ?a3.0 = "''74''"
      and ?a4.0 = "''apache''" and ?a5.0 = "''apache''" and ?b3.0 = "''57''" and ?b4.0 = "''74''",
      THEN conjunct1, THEN mp, OF disjI1, OF d]
  from t1 t2 d show ?thesis
    by blast
qed








subsection \<open>Claims about the format of names\<close>




subsection \<open>Claims about list and info\<close>

lemma bre_match_here_literal: "prefix pat s \<Longrightarrow> bre_match_here pat s"
  by (induction pat s rule: bre_match_here.induct) auto

lemma bre_match_here_prefix:
  "CHR ''.'' \<notin> set pat \<Longrightarrow> bre_match_here pat s \<longleftrightarrow> prefix pat s"
  by (induction pat s rule: bre_match_here.induct) auto

lemma name_format_no_dot: "name_format_ok X \<Longrightarrow> CHR ''.'' \<notin> set (X @ ''-'')"
proof -
  assume "name_format_ok X"
  then have "\<forall>c\<in>set X. name_char c"
    by (simp add: name_format_ok_def list_all_iff)
  moreover have "\<not> name_char CHR ''.''"
    by (simp add: name_char_def)
  ultimately show ?thesis
    by auto
qed

lemma grep_q_anchored_prefix:
  "name_format_ok X \<Longrightarrow> grep_q_anchored (X @ ''-'') ps \<longleftrightarrow> (\<exists>c\<in>set ps. prefix (X @ ''-'') c)"
  using bre_match_here_prefix [OF name_format_no_dot]
  by (simp add: grep_q_anchored_def list_ex_iff)

text \<open>
  C10, as amended. For an instance whose name has the format \<^verbatim>\<open>[A-Za-z0-9_-]+\<close>, hence no
  dot, list and info say running exactly when the name of some running container starts
  with the name and a hyphen. So an instance X is said to be running whenever a running
  container belongs to an instance whose name starts with X and a hyphen.
\<close>

theorem status_by_name_prefix:
  "name_format_ok X \<longrightarrow>
     (container_status X ps = ''running'' \<longleftrightarrow> (\<exists>c\<in>set ps. prefix (X @ ''-'') c)) \<and>
     (NAME i = X \<longrightarrow>
        (list_row ps i ! 5 = ''running'' \<longleftrightarrow> (\<exists>c\<in>set ps. prefix (X @ ''-'') c))) \<and>
     (NAME i = X \<and> show_info n st = Some (i, s) \<longrightarrow>
        (s = ''Running'' \<longleftrightarrow> (\<exists>c\<in>set (running st). prefix (X @ ''-'') c))) \<and>
     (prefix (X @ ''-'') Y \<and> c \<in> set ps \<and> prefix (Y @ ''-'') c \<longrightarrow>
        container_status X ps = ''running'')"
proof
  assume f: "name_format_ok X"
  have 1: "container_status X ps = ''running'' \<longleftrightarrow> (\<exists>c\<in>set ps. prefix (X @ ''-'') c)" for ps
    by (simp add: container_status_def grep_q_anchored_prefix [OF f])
  have 2: "NAME i = X \<longrightarrow>
        (list_row ps i ! 5 = ''running'' \<longleftrightarrow> (\<exists>c\<in>set ps. prefix (X @ ''-'') c))"
    using 1 [of ps] by (simp add: list_row_def)
  have 3: "NAME i = X \<and> show_info n st = Some (i, s) \<longrightarrow>
        (s = ''Running'' \<longleftrightarrow> (\<exists>c\<in>set (running st). prefix (X @ ''-'') c))"
  proof (intro impI, elim conjE)
    assume n: "NAME i = X" and si: "show_info n st = Some (i, s)"
    from si have "s = (if grep_q_anchored (NAME i @ ''-'') (running st) then ''Running'' else ''Stopped'')"
      by (auto simp: show_info_def split: option.splits)
    then show "s = ''Running'' \<longleftrightarrow> (\<exists>c\<in>set (running st). prefix (X @ ''-'') c)"
      using grep_q_anchored_prefix [OF f, of "running st"] n by auto
  qed
  have 4: "prefix (X @ ''-'') Y \<and> c \<in> set ps \<and> prefix (Y @ ''-'') c \<longrightarrow>
        container_status X ps = ''running''"
  proof
    assume a: "prefix (X @ ''-'') Y \<and> c \<in> set ps \<and> prefix (Y @ ''-'') c"
    then have "prefix (X @ ''-'') (Y @ ''-'')"
      by (simp add: prefix_prefix)
    with a have "prefix (X @ ''-'') c"
      using prefix_order.trans by blast
    with a show "container_status X ps = ''running''"
      using 1 [of ps] by blast
  qed
  from 1 [of ps] 2 3 4 show "(container_status X ps = ''running'' \<longleftrightarrow> (\<exists>c\<in>set ps. prefix (X @ ''-'') c)) \<and>
     (NAME i = X \<longrightarrow>
        (list_row ps i ! 5 = ''running'' \<longleftrightarrow> (\<exists>c\<in>set ps. prefix (X @ ''-'') c))) \<and>
     (NAME i = X \<and> show_info n st = Some (i, s) \<longrightarrow>
        (s = ''Running'' \<longleftrightarrow> (\<exists>c\<in>set (running st). prefix (X @ ''-'') c))) \<and>
     (prefix (X @ ''-'') Y \<and> c \<in> set ps \<and> prefix (Y @ ''-'') c \<longrightarrow>
        container_status X ps = ''running'')"
    by blast
qed

theorem status_by_name_prefix_witness:
  "name_format_ok ''foo'' \<and>
   container_status ''foo'' [''foo-bar-mysql'', ''foo-bar-php'', ''foo-bar-apache''] = ''running'' \<and>
   container_status ''foo'' [''food-mysql''] = ''stopped''"
proof -
  have f: "name_format_ok ''foo''"
    by (simp add: name_format_ok_def name_char_def)
  note t1 = status_by_name_prefix [where X = "''foo''" and Y = "''foo-bar''" and c = "''foo-bar-php''"
      and ps = "[''foo-bar-mysql'', ''foo-bar-php'', ''foo-bar-apache'']", THEN mp, OF f]
  note t2 = status_by_name_prefix [where X = "''foo''" and ps = "[''food-mysql'']", THEN mp, OF f]
  have a: "prefix (''foo'' @ ''-'') ''foo-bar'' \<and>
      ''foo-bar-php'' \<in> set [''foo-bar-mysql'', ''foo-bar-php'', ''foo-bar-apache''] \<and>
      prefix (''foo-bar'' @ ''-'') ''foo-bar-php''"
    by simp
  have 1: "container_status ''foo'' [''foo-bar-mysql'', ''foo-bar-php'', ''foo-bar-apache''] = ''running''"
    using t1 a by blast
  have "\<not> (\<exists>c\<in>set [''food-mysql'']. prefix (''foo'' @ ''-'') c)"
    by simp
  then have "container_status ''foo'' [''food-mysql''] \<noteq> ''running''"
    using t2 by blast
  then have 2: "container_status ''foo'' [''food-mysql''] = ''stopped''"
    by (simp add: container_status_def split: if_splits)
  from f 1 2 show ?thesis
    by blast
qed

text \<open>
  C10 as it is stated fails for a name with a dot, which create accepts: with the
  instances \<^verbatim>\<open>a.b\<close> and \<^verbatim>\<open>axb\<close> created and only \<^verbatim>\<open>axb\<close> started, no running container has a
  name that starts with \<^verbatim>\<open>a.b-\<close>, and info and list say that \<^verbatim>\<open>a.b\<close> is running.
\<close>

theorem status_of_dotted_name_counterexample:
  "running (run default_env
     [Create (sample_rnd ''a'') ''a.b'' ''80'' ''83'' ''nginx'',
      Create (sample_rnd ''b'') ''axb'' ''80'' ''83'' ''nginx'',
      Start ''axb'']
     (empty_workspace (Some sample_workspace))) = [''axb-mysql'', ''axb-php'', ''axb-nginx''] \<and>
   \<not> list_ex (prefix (''a.b'' @ ''-'')) [''axb-mysql'', ''axb-php'', ''axb-nginx''] \<and>
   map_option snd (show_info ''a.b'' (run default_env
     [Create (sample_rnd ''a'') ''a.b'' ''80'' ''83'' ''nginx'',
      Create (sample_rnd ''b'') ''axb'' ''80'' ''83'' ''nginx'',
      Start ''axb'']
     (empty_workspace (Some sample_workspace)))) = Some ''Running'' \<and>
   map (\<lambda>row. (row ! 0, row ! 5)) (list_instances (run default_env
     [Create (sample_rnd ''a'') ''a.b'' ''80'' ''83'' ''nginx'',
      Create (sample_rnd ''b'') ''axb'' ''80'' ''83'' ''nginx'',
      Start ''axb'']
     (empty_workspace (Some sample_workspace)))) = [(''a.b'', ''running''), (''axb'', ''running'')]"
  by (simp add: main_def create_instance_def start_instance_def Let_def or_default_def
      dir_exists_def empty_workspace_def ensure_network_def render_compose_def containers_of_def
      add_running_def fresh_dir_def show_info_def grep_q_anchored_def render_info_def
      list_instances_def list_row_def container_status_def)

subsection \<open>Claims about the loaders\<close>




subsection \<open>What clone leaves\<close>


lemma info_of_running [simp]: "info_of (st\<lparr>running := rs\<rparr>) k = info_of st k"
  by (simp add: info_of_def)




lemma start_target_Done: "fst (start_target tc res) = Done \<longleftrightarrow> fst res = Done"
  by (simp add: start_target_def)


subsection \<open>Claims about clone\<close>



text \<open>
  The password given to the import is the root password in the metadata of the source:
  a clone by \<^verbatim>\<open>copy-all\<close> completes only if the root password generated for the target is
  that very password.
\<close>

lemma clone_copy_all_Done_password:
  assumes "fst (clone_instance e r s t ''copy-all'' st) = Done" and "info_of st s = Some src"
  shows "gen_password (openssl_rand_2 r) = DB_ROOT_PASSWORD src"
proof -
  let ?c = "create_instance e r t (MYSQL_VERSION src) (PHP_VERSION src) (WEBSERVER src) st"
  from assms(2) have b: "Option.bind (map_of (dirs st) s) dot_instance_info = Some src"
    by (simp add: info_of_def)
  have d: "fst ?c = Done"
    using assms(1) b unfolding clone_instance_def Let_def
    by (auto split: if_splits)
  note tc = create_instance_compose_of [OF d]
  have "fst (copy_database (DB_ROOT_PASSWORD src) s t tc' st') = Done
      \<Longrightarrow> DB_ROOT_PASSWORD src = MYSQL_ROOT_PASSWORD tc'" for tc' st'
    by (auto simp: copy_database_def Let_def split: option.splits if_splits)
  then have "fst (apply_strategy ''copy-all'' src s t tc' st') = Done
      \<Longrightarrow> DB_ROOT_PASSWORD src = MYSQL_ROOT_PASSWORD tc'" for tc' st'
    by (auto simp: apply_strategy_def split: option.splits)
  with assms(1) b d tc show ?thesis
    unfolding clone_instance_def Let_def
    by (auto simp: or_default_def start_target_Done render_compose_def split: if_splits)
qed





end
